theory Spec2Isabelle
  imports Main "HOL-Library.Sublist"
begin

section \<open>The static file middlewares of the dev server (server/middlewares/static.ts)\<close>

text \<open>
  The file \<^verbatim>\<open>static.ts\<close> holds three connect middlewares
  (\<^verbatim>\<open>servePublicMiddleware\<close>, \<^verbatim>\<open>serveStaticMiddleware\<close>,
  \<^verbatim>\<open>serveRawFsMiddleware\<close>) and the access check
  \<^verbatim>\<open>isFileServingRestricted\<close>. Strings are \<^typ>\<open>string\<close>;
  \<^verbatim>\<open>a.startsWith(b)\<close> is \<^term>\<open>prefix b a\<close> and
  \<^verbatim>\<open>a.endsWith(b)\<close> is \<^term>\<open>suffix b a\<close>.
\<close>

subsection \<open>What the module imports\<close>

text \<open>
  The helpers of \<^verbatim>\<open>../../utils\<close> and \<^verbatim>\<open>../../constants\<close>, the
  functions of Node's \<^verbatim>\<open>path\<close> and \<^verbatim>\<open>fs\<close> modules and the
  built-in \<^verbatim>\<open>decodeURI\<close> are not part of \<^verbatim>\<open>static.ts\<close>. The
  middlewares take them as the fields of an environment, so that every general theorem
  below holds for any implementation of them and any state of the disk.
  \<^verbatim>\<open>decodeURI\<close> throws a URIError on a malformed escape: \<open>None\<close>.
  \<^verbatim>\<open>resolve\<close> is \<^verbatim>\<open>path.resolve\<close> applied to the list of its arguments.
\<close>

record Env =
  cleanUrl :: "string \<Rightarrow> string"
  normalizePath :: "string \<Rightarrow> string"
  ensureLeadingSlash :: "string \<Rightarrow> string"
  fsPathFromId :: "string \<Rightarrow> string"
  isImportRequest :: "string \<Rightarrow> bool"
  isInternalRequest :: "string \<Rightarrow> bool"
  slash :: "string \<Rightarrow> string"
  isWindows :: bool
  FS_PREFIX :: string
  extname :: "string \<Rightarrow> string"
  resolve :: "string list \<Rightarrow> string"
  existsSync :: "string \<Rightarrow> bool"
  decodeURI :: "string \<Rightarrow> string option"

subsection \<open>The logger\<close>

text \<open>
  \<^verbatim>\<open>server.config.logger\<close> is the only state the module writes. Its state
  is the list of the messages printed so far, oldest first, and the set of the messages
  \<^verbatim>\<open>warnOnce\<close> has already printed.
\<close>

record Logger =
  printed :: "string list"
  warnedMessages :: "string set"

text \<open>
  Modelled from the spec: the logger (\<^verbatim>\<open>createLogger\<close>) is missing from the
  sources. The spec gives its interface as \<^verbatim>\<open>warn(message)\<close> and
  \<^verbatim>\<open>warnOnce(message)\<close>, the latter with message-keyed deduplication:
  a process-wide set of the messages already emitted, so that an identical message is
  logged once.
\<close>

definition warn :: "string \<Rightarrow> Logger \<Rightarrow> Logger" where
  "warn msg lg = lg\<lparr>printed := printed lg @ [msg]\<rparr>"

definition warnOnce :: "string \<Rightarrow> Logger \<Rightarrow> Logger" where
  "warnOnce msg lg =
     (if msg \<in> warnedMessages lg then lg
      else (warn msg lg)\<lparr>warnedMessages := insert msg (warnedMessages lg)\<rparr>)"

subsection \<open>The server\<close>

text \<open>
  An alias rule is \<^verbatim>\<open>{ find: string | RegExp, replacement: string }\<close>. A
  regular expression is kept as what the loop asks of it: \<^verbatim>\<open>find.test(url)\<close>
  and \<^verbatim>\<open>url.replace(find, replacement)\<close>.
\<close>

datatype Find =
    FindString string
  | FindRegExp "string \<Rightarrow> bool" "string \<Rightarrow> string \<Rightarrow> string"

record Alias =
  findA :: Find
  replacement :: string

text \<open>
  The fields of \<^verbatim>\<open>ViteDevServer\<close> the module reads:
  \<^verbatim>\<open>config.server.fs.strict\<close> (\<^verbatim>\<open>boolean | undefined\<close>, with
  \<open>None\<close> for \<^verbatim>\<open>undefined\<close>), \<^verbatim>\<open>config.server.fs.allow\<close>,
  \<^verbatim>\<open>config.resolve.alias\<close> (the field \<open>resolve_alias\<close>) and \<^verbatim>\<open>moduleGraph.safeModulesPath\<close>.
\<close>

record ViteDevServer =
  strict :: "bool option"
  allow :: "string list"
  resolve_alias :: "Alias list"
  safeModulesPath :: "string set"

subsection \<open>isFileServingRestricted\<close>

text \<open>\<^verbatim>\<open>xs.join(sep)\<close>.\<close>

fun join :: "string \<Rightarrow> string list \<Rightarrow> string" where
  "join sep [] = []"
| "join sep [x] = x"
| "join sep (x # y # ys) = x @ sep @ join sep (y # ys)"

text \<open>The three template literals of the function.\<close>

definition unrestrictedMessage :: "string \<Rightarrow> string" where
  \<open>unrestrictedMessage url = ''Unrestricted file system access to "'' @ url @ ''"''\<close>

definition futureMessage :: string where
  "futureMessage =
     ''For security concerns, accessing files outside of serving allow list will '' @
     ''be restricted by default in the future version of Vite. '' @
     ''Refer to https://vitejs.dev/config/#server-fs-allow for more details.''"

definition outsideMessage :: "string \<Rightarrow> string list \<Rightarrow> string" where
  \<open>outsideMessage url allowed =
     ''The request url "'' @ url @ ''" is outside of Vite serving allow list:'' @
     [CHR 0x0A, CHR 0x0A] @
     join [CHR 0x0A] (map (\<lambda>i. ''- '' @ i) allowed) @
     [CHR 0x0A, CHR 0x0A] @
     ''Refer to docs https://vitejs.dev/config/#server-fs-allow for configurations and more details.''\<close>

text \<open>
  \<^verbatim>\<open>const file = ensureLeadingSlash(normalizePath(cleanUrl(url)))\<close>
\<close>

definition fileOf :: "Env \<Rightarrow> string \<Rightarrow> string" where
  "fileOf env url = ensureLeadingSlash env (normalizePath env (cleanUrl env url))"

text \<open>
  The function returns its boolean and the logger after its warnings. The tests follow
  the source line by line: \<^verbatim>\<open>strict === false\<close>,
  \<^verbatim>\<open>fs.existsSync(file)\<close>, \<^verbatim>\<open>safeModulesPath.has(file)\<close>,
  \<^verbatim>\<open>allow.some((i) => file.startsWith(i + '/'))\<close>, \<^verbatim>\<open>!strict\<close>
  (which, \<^verbatim>\<open>false\<close> being gone, is \<^verbatim>\<open>undefined\<close>).
\<close>

definition isFileServingRestricted ::
  "Env \<Rightarrow> string \<Rightarrow> ViteDevServer \<Rightarrow> Logger \<Rightarrow> bool \<times> Logger" where
  "isFileServingRestricted env url server lg =
     (if strict server = Some False then (False, lg)
      else
        let file = fileOf env url in
        if existsSync env file then (False, lg)
        else if file \<in> safeModulesPath server then (False, lg)
        else if list_ex (\<lambda>i. prefix (i @ ''/'') file) (allow server) then (False, lg)
        else if strict server = None then
          (False, warnOnce futureMessage (warnOnce (unrestrictedMessage url) lg))
        else (True, warn (outsideMessage url (allow server)) lg))"

subsection \<open>The outcome of a middleware\<close>

text \<open>
  A middleware ends by calling \<^verbatim>\<open>next()\<close>, by handing the request to the
  \<^verbatim>\<open>sirv\<close> handler of a root directory (the file transfer, which is outside
  this module), or by letting the URIError of \<^verbatim>\<open>decodeURI\<close> escape. The
  outcome records these calls in order, with the \<^verbatim>\<open>req.url\<close> the handler
  was given, then the final \<^verbatim>\<open>req.url\<close> and the logger.
\<close>

datatype Call = Next | Serve string string | URIError

record Outcome =
  calls :: "Call list"
  req_url :: string
  logger :: Logger

subsection \<open>servePublicMiddleware\<close>

definition viteServePublicMiddleware :: "Env \<Rightarrow> string \<Rightarrow> string \<Rightarrow> Logger \<Rightarrow> Outcome" where
  "viteServePublicMiddleware env dir url lg =
     (if isImportRequest env url \<or> isInternalRequest env url
      then \<lparr>calls = [Next], req_url = url, logger = lg\<rparr>
      else \<lparr>calls = [Serve dir url], req_url = url, logger = lg\<rparr>)"

subsection \<open>serveStaticMiddleware\<close>

text \<open>
  \<^verbatim>\<open>url.replace(find, replacement)\<close> with a string \<^verbatim>\<open>find\<close> replaces
  the first occurrence of it, and expands in the replacement the patterns
  \<^verbatim>\<open>$$\<close>, \<^verbatim>\<open>$&\<close>, \<^verbatim>\<open>$`\<close> and \<^verbatim>\<open>$'\<close> (there is no
  capture group, so every other \<^verbatim>\<open>$\<close> stays as it is).
\<close>

fun getSubstitution :: "string \<Rightarrow> string \<Rightarrow> string \<Rightarrow> string \<Rightarrow> string" where
  "getSubstitution matched pre post [] = []"
| "getSubstitution matched pre post [c] = [c]"
| "getSubstitution matched pre post (c # d # rest) =
     (if c = CHR ''$'' \<and> d = CHR ''$'' then CHR ''$'' # getSubstitution matched pre post rest
      else if c = CHR ''$'' \<and> d = CHR ''&'' then matched @ getSubstitution matched pre post rest
      else if c = CHR ''$'' \<and> d = CHR 0x60 then pre @ getSubstitution matched pre post rest
      else if c = CHR ''$'' \<and> d = CHR 0x27 then post @ getSubstitution matched pre post rest
      else c # getSubstitution matched pre post (d # rest))"

fun replaceFrom :: "string \<Rightarrow> string \<Rightarrow> string \<Rightarrow> string \<Rightarrow> string" where
  "replaceFrom pre [] pat repl =
     (if pat = [] then pre @ getSubstitution pat pre [] repl else pre)"
| "replaceFrom pre (c # cs) pat repl =
     (if prefix pat (c # cs)
      then pre @ getSubstitution pat pre (drop (length pat) (c # cs)) repl
             @ drop (length pat) (c # cs)
      else replaceFrom (pre @ [c]) cs pat repl)"

definition replaceString :: "string \<Rightarrow> string \<Rightarrow> string \<Rightarrow> string" where
  "replaceString url pat repl = replaceFrom [] url pat repl"

text \<open>
  \<^verbatim>\<open>typeof find === 'string' ? url.startsWith(find) : find.test(url)\<close> and
  \<^verbatim>\<open>url.replace(find, replacement)\<close>.
\<close>

fun matches :: "Find \<Rightarrow> string \<Rightarrow> bool" where
  "matches (FindString s) url = prefix s url"
| "matches (FindRegExp test rep) url = test url"

fun replaceFind :: "string \<Rightarrow> Find \<Rightarrow> string \<Rightarrow> string" where
  "replaceFind url (FindString s) repl = replaceString url s repl"
| "replaceFind url (FindRegExp test rep) repl = rep url repl"

text \<open>
  The \<^verbatim>\<open>for ... of server.config.resolve.alias\<close> loop with its
  \<^verbatim>\<open>break\<close>: \<open>None\<close> is a \<^verbatim>\<open>redirected\<close> left
  \<^verbatim>\<open>undefined\<close>.
\<close>

fun aliasLoop :: "Alias list \<Rightarrow> string \<Rightarrow> string option" where
  "aliasLoop [] url = None"
| "aliasLoop (a # rest) url =
     (if matches (findA a) url then Some (replaceFind url (findA a) (replacement a))
      else aliasLoop rest url)"

text \<open>
  \<^verbatim>\<open>if (redirected)\<close> is false for \<^verbatim>\<open>undefined\<close> and for the empty
  string.
\<close>

fun truthy :: "string option \<Rightarrow> bool" where
  "truthy None = False"
| "truthy (Some s) = (s \<noteq> [])"

text \<open>
  \<^verbatim>\<open>if (redirected) { if (redirected.startsWith(dir)) redirected = redirected.slice(dir.length) }\<close>
\<close>

fun stripDir :: "string \<Rightarrow> string option \<Rightarrow> string option" where
  "stripDir dir None = None"
| "stripDir dir (Some r) =
     (if truthy (Some r) \<and> prefix dir r then Some (drop (length dir) r) else Some r)"

text \<open>\<^verbatim>\<open>redirected || url\<close>\<close>

fun orUrl :: "string option \<Rightarrow> string \<Rightarrow> string" where
  "orUrl None url = url"
| "orUrl (Some r) url = (if truthy (Some r) then r else url)"

text \<open>\<^verbatim>\<open>resolvedUrl.replace(/^\//, '')\<close>\<close>

fun stripLeadingSlash :: "string \<Rightarrow> string" where
  "stripLeadingSlash [] = []"
| "stripLeadingSlash (c # cs) = (if c = CHR ''/'' then cs else c # cs)"

definition viteServeStaticMiddleware ::
  "Env \<Rightarrow> string \<Rightarrow> ViteDevServer \<Rightarrow> string \<Rightarrow> Logger \<Rightarrow> Outcome" where
  "viteServeStaticMiddleware env dir server requrl lg =
     (if suffix ''/'' requrl \<or> extname env (cleanUrl env requrl) = ''.html''
         \<or> isInternalRequest env requrl
      then \<lparr>calls = [Next], req_url = requrl, logger = lg\<rparr>
      else
        case decodeURI env requrl of
          None \<Rightarrow> \<lparr>calls = [URIError], req_url = requrl, logger = lg\<rparr>
        | Some url \<Rightarrow>
            let redirected = stripDir dir (aliasLoop (resolve_alias server) url);
                resolvedUrl = orUrl redirected url;
                fileUrl0 = resolve env [dir, stripLeadingSlash resolvedUrl];
                fileUrl = (if suffix ''/'' resolvedUrl \<and> \<not> suffix ''/'' fileUrl0
                           then fileUrl0 @ ''/'' else fileUrl0);
                r = isFileServingRestricted env fileUrl server lg
            in if fst r then \<lparr>calls = [Next], req_url = requrl, logger = snd r\<rparr>
               else
                 let requrl' = (if truthy redirected then orUrl redirected url else requrl)
                 in \<lparr>calls = [Serve dir requrl'], req_url = requrl', logger = snd r\<rparr>)"

subsection \<open>serveRawFsMiddleware\<close>

text \<open>\<^verbatim>\<open>url.replace(/^[A-Z]:/i, '')\<close>\<close>

definition isLetter :: "char \<Rightarrow> bool" where
  "isLetter c =
     ((65 \<le> (of_char c :: nat) \<and> (of_char c :: nat) \<le> 90)
      \<or> (97 \<le> (of_char c :: nat) \<and> (of_char c :: nat) \<le> 122))"

fun stripDrive :: "string \<Rightarrow> string" where
  "stripDrive (c # d # rest) = (if isLetter c \<and> d = CHR '':'' then rest else c # d # rest)"
| "stripDrive s = s"

text \<open>
  In the branch of a url that starts with \<^verbatim>\<open>FS_PREFIX\<close>, the
  \<^verbatim>\<open>if (isFileServingRestricted(...)) { next() }\<close> has no \<^verbatim>\<open>return\<close>:
  whatever the check answers, control goes on to the \<^verbatim>\<open>slice\<close>, the
  assignment of \<^verbatim>\<open>req.url\<close> and \<^verbatim>\<open>serveFromRoot\<close>, the
  \<^verbatim>\<open>sirv\<close> handler of the root \<^verbatim>\<open>/\<close>.
\<close>

definition viteServeRawFsMiddleware ::
  "Env \<Rightarrow> ViteDevServer \<Rightarrow> string \<Rightarrow> Logger \<Rightarrow> Outcome" where
  "viteServeRawFsMiddleware env server requrl lg =
     (if prefix (FS_PREFIX env) requrl
      then
        let r = isFileServingRestricted env
                  (slash env (resolve env [fsPathFromId env requrl])) server lg;
            called = (if fst r then [Next] else []);
            url1 = drop (length (FS_PREFIX env)) requrl;
            url2 = (if isWindows env then stripDrive url1 else url1)
        in \<lparr>calls = called @ [Serve ''/'' url2], req_url = url2, logger = snd r\<rparr>
      else \<lparr>calls = [Next], req_url = requrl, logger = lg\<rparr>)"

section \<open>A POSIX environment\<close>

text \<open>
  Modelled from the spec: the helpers \<^verbatim>\<open>cleanUrl\<close>,
  \<^verbatim>\<open>normalizePath\<close>, \<^verbatim>\<open>ensureLeadingSlash\<close>,
  \<^verbatim>\<open>fsPathFromId\<close>, \<^verbatim>\<open>isImportRequest\<close>,
  \<^verbatim>\<open>isInternalRequest\<close>, \<^verbatim>\<open>slash\<close>, \<^verbatim>\<open>isWindows\<close>
  and the constant \<^verbatim>\<open>FS_PREFIX\<close> are missing from the sources. The spec
  describes them as: the query/hash suffix removed; a slash-style path with
  \<^verbatim>\<open>.\<close> and \<^verbatim>\<open>..\<close> collapsed as the filesystem would; a leading
  slash; the reserved prefix \<^verbatim>\<open>/@fs/\<close>; the query marker of the module system;
  the reserved client and runtime paths. This section gives one environment of that
  description, on a POSIX machine whose working directory is \<^verbatim>\<open>/\<close>, together
  with \<^verbatim>\<open>path.normalize\<close>, \<^verbatim>\<open>path.resolve\<close>,
  \<^verbatim>\<open>path.extname\<close> and \<^verbatim>\<open>decodeURI\<close> on strings of UTF-8 bytes. It serves to
  run the middlewares on concrete requests; no general theorem depends on it.
\<close>

definition util_cleanUrl :: "string \<Rightarrow> string" where
  "util_cleanUrl url = takeWhile (\<lambda>c. c \<noteq> CHR ''?'' \<and> c \<noteq> CHR ''#'') url"

definition util_ensureLeadingSlash :: "string \<Rightarrow> string" where
  "util_ensureLeadingSlash p = (if prefix ''/'' p then p else ''/'' @ p)"

definition util_slash :: "string \<Rightarrow> string" where
  "util_slash p = map (\<lambda>c. if c = CHR 0x5C then CHR ''/'' else c) p"

fun splitOn :: "char \<Rightarrow> string \<Rightarrow> string list" where
  "splitOn c [] = [[]]"
| "splitOn c (x # xs) =
     (if x = c then [] # splitOn c xs
      else (case splitOn c xs of [] \<Rightarrow> [[x]] | s # ss \<Rightarrow> (x # s) # ss))"

text \<open>
  Node's \<^verbatim>\<open>normalizeString\<close> on the segments of a path: the kept segments are
  stacked in \<open>acc\<close>, the last one first.
\<close>

fun normalizeString :: "bool \<Rightarrow> string list \<Rightarrow> string list \<Rightarrow> string list" where
  "normalizeString allowAboveRoot acc [] = rev acc"
| "normalizeString allowAboveRoot acc (seg # segs) =
     (if seg = [] \<or> seg = ''.'' then normalizeString allowAboveRoot acc segs
      else if seg = ''..'' then
        (case acc of
           [] \<Rightarrow> normalizeString allowAboveRoot (if allowAboveRoot then [''..''] else []) segs
         | seg0 # below \<Rightarrow>
             if seg0 = ''..'' then normalizeString allowAboveRoot (''..'' # acc) segs
             else normalizeString allowAboveRoot below segs)
      else normalizeString allowAboveRoot (seg # acc) segs)"

definition path_normalize :: "string \<Rightarrow> string" where
  "path_normalize p =
     (if p = [] then ''.''
      else
        let isAbsolute = prefix ''/'' p;
            trailingSeparator = suffix ''/'' p;
            body = join ''/'' (normalizeString (\<not> isAbsolute) [] (splitOn CHR ''/'' p))
        in if body = [] then
             (if isAbsolute then ''/'' else if trailingSeparator then ''./'' else ''.'')
           else
             (if isAbsolute then ''/'' else []) @ body
               @ (if trailingSeparator then ''/'' else []))"

text \<open>
  \<^verbatim>\<open>path.resolve\<close> reads its arguments from the right until one is absolute,
  and falls back on the working directory.
\<close>

fun joinResolved :: "string list \<Rightarrow> string" where
  "joinResolved [] = []"
| "joinResolved (p # ps) =
     (let r = joinResolved ps
      in if prefix ''/'' r then r else if p = [] then r else p @ ''/'' @ r)"

definition path_resolve :: "string list \<Rightarrow> string" where
  "path_resolve ps =
     ''/'' @ join ''/'' (normalizeString False [] (splitOn CHR ''/'' (joinResolved (''/'' # ps))))"

fun lastSegment :: "string \<Rightarrow> string \<Rightarrow> string" where
  "lastSegment acc [] = acc"
| "lastSegment acc (c # cs) =
     (if c = CHR ''/'' then lastSegment [] cs else lastSegment (acc @ [c]) cs)"

definition path_extname :: "string \<Rightarrow> string" where
  "path_extname p =
     (let base = lastSegment [] (rev (dropWhile (\<lambda>c. c = CHR ''/'') (rev p)));
          ext = rev (takeWhile (\<lambda>c. c \<noteq> CHR ''.'') (rev base));
          stem = take (length base - length ext - 1) base
      in if CHR ''.'' \<in> set base \<and> stem \<noteq> [] \<and> base \<noteq> ''..'' then CHR ''.'' # ext
         else [])"

definition util_normalizePath :: "string \<Rightarrow> string" where
  "util_normalizePath p = path_normalize p"

definition util_FS_PREFIX :: string where
  "util_FS_PREFIX = ''/@fs/''"

fun hasVolume :: "string \<Rightarrow> bool" where
  "hasVolume (c # d # rest) = (isLetter c \<and> d = CHR '':'')"
| "hasVolume s = False"

definition util_fsPathFromId :: "string \<Rightarrow> string" where
  "util_fsPathFromId ident =
     (let fsPath = util_normalizePath (drop (length util_FS_PREFIX) ident)
      in if prefix ''/'' fsPath \<or> hasVolume fsPath then fsPath else ''/'' @ fsPath)"

text \<open>
  The query marker: \<^verbatim>\<open>?import\<close> or \<^verbatim>\<open>&import\<close>, with an optional
  \<^verbatim>\<open>=\<close>, at the end of the url or before a \<^verbatim>\<open>&\<close>.
\<close>

definition importHere :: "string \<Rightarrow> bool" where
  "importHere s =
     ((prefix ''?import'' s \<or> prefix ''&import'' s)
      \<and> (let t = drop 7 s in t = [] \<or> prefix ''&'' t \<or> t = ''='' \<or> prefix ''=&'' t))"

fun util_isImportRequest :: "string \<Rightarrow> bool" where
  "util_isImportRequest [] = False"
| "util_isImportRequest (c # cs) = (importHere (c # cs) \<or> util_isImportRequest cs)"

definition util_isInternalRequest :: "string \<Rightarrow> bool" where
  "util_isInternalRequest url =
     (prefix util_FS_PREFIX url \<or> prefix ''/@id/'' url
      \<or> prefix ''/@vite/client'' url \<or> prefix ''/@vite/env'' url)"

text \<open>
  \<^verbatim>\<open>decodeURI\<close>, on strings that hold the UTF-8 bytes of the text. An escape
  \<^verbatim>\<open>%XX\<close> below \<^verbatim>\<open>%80\<close> is decoded unless it stands for one of the
  reserved characters \<^verbatim>\<open>; / ? : @ & = + $ , #\<close>, which stay escaped. An escape
  from \<^verbatim>\<open>%80\<close> on must start a well-formed UTF-8 sequence of two to four
  escaped bytes, which is decoded to these bytes. A \<^verbatim>\<open>%\<close> without two hexadecimal
  digits, and a sequence that is not well-formed UTF-8, throw.
  \<open>decodeFrom need lo hi\<close> reads a string of which \<open>need\<close> continuation bytes
  are still due, the next of them between \<open>lo\<close> and \<open>hi\<close>.
\<close>

definition hexval :: "char \<Rightarrow> nat option" where
  "hexval c =
     (let n = (of_char c :: nat)
      in if 48 \<le> n \<and> n \<le> 57 then Some (n - 48)
         else if 65 \<le> n \<and> n \<le> 70 then Some (n - 55)
         else if 97 \<le> n \<and> n \<le> 102 then Some (n - 87)
         else None)"

fun decodeFrom :: "nat \<Rightarrow> nat \<Rightarrow> nat \<Rightarrow> string \<Rightarrow> string option" where
  "decodeFrom need lo hi [] = (if need = 0 then Some [] else None)"
| "decodeFrom need lo hi [c] = (if need = 0 \<and> c \<noteq> CHR ''%'' then Some [c] else None)"
| "decodeFrom need lo hi [c, d] =
     (if need = 0 \<and> c \<noteq> CHR ''%'' then map_option (Cons c) (decodeFrom 0 0 0 [d]) else None)"
| "decodeFrom need lo hi (c # h1 # h2 # rest) =
     (if c = CHR ''%'' then
        (case hexval h1 of
           None \<Rightarrow> None
         | Some a \<Rightarrow>
            (case hexval h2 of
               None \<Rightarrow> None
             | Some b \<Rightarrow>
                 let n = 16 * a + b in
                 if 0 < need then
                   (if lo \<le> n \<and> n \<le> hi
                    then map_option (Cons (char_of n)) (decodeFrom (need - 1) 128 191 rest)
                    else None)
                 else if n < 128 then
                   (if (char_of n :: char) \<in> set '';/?:@&=+$,#''
                    then map_option (\<lambda>r. c # h1 # h2 # r) (decodeFrom 0 0 0 rest)
                    else map_option (Cons (char_of n)) (decodeFrom 0 0 0 rest))
                 else if 194 \<le> n \<and> n \<le> 223 then
                   map_option (Cons (char_of n)) (decodeFrom 1 128 191 rest)
                 else if n = 224 then
                   map_option (Cons (char_of n)) (decodeFrom 2 160 191 rest)
                 else if n = 237 then
                   map_option (Cons (char_of n)) (decodeFrom 2 128 159 rest)
                 else if 225 \<le> n \<and> n \<le> 239 then
                   map_option (Cons (char_of n)) (decodeFrom 2 128 191 rest)
                 else if n = 240 then
                   map_option (Cons (char_of n)) (decodeFrom 3 144 191 rest)
                 else if 241 \<le> n \<and> n \<le> 243 then
                   map_option (Cons (char_of n)) (decodeFrom 3 128 191 rest)
                 else if n = 244 then
                   map_option (Cons (char_of n)) (decodeFrom 3 128 143 rest)
                 else None))
      else if 0 < need then None
      else map_option (Cons c) (decodeFrom 0 0 0 (h1 # h2 # rest)))"

definition js_decodeURI :: "string \<Rightarrow> string option" where
  "js_decodeURI s = decodeFrom 0 0 0 s"

text \<open>The environment over a disk that holds exactly the paths of \<open>disk\<close>.\<close>

definition posixEnv :: "string list \<Rightarrow> Env" where
  "posixEnv disk =
     \<lparr>cleanUrl = util_cleanUrl,
      normalizePath = util_normalizePath,
      ensureLeadingSlash = util_ensureLeadingSlash,
      fsPathFromId = util_fsPathFromId,
      isImportRequest = util_isImportRequest,
      isInternalRequest = util_isInternalRequest,
      slash = util_slash,
      isWindows = False,
      FS_PREFIX = util_FS_PREFIX,
      extname = path_extname,
      resolve = path_resolve,
      existsSync = (\<lambda>file. file \<in> set disk),
      decodeURI = js_decodeURI\<rparr>"

text \<open>
  A server in strict mode that allows \<^verbatim>\<open>/proj\<close> only, with no alias and no
  safe module, and a logger that has printed nothing yet.
\<close>

definition strictServer :: ViteDevServer where
  "strictServer =
     \<lparr>strict = Some True, allow = [''/proj''], resolve_alias = [], safeModulesPath = {}\<rparr>"


definition quietLogger :: Logger where
  "quietLogger = \<lparr>printed = [], warnedMessages = {}\<rparr>"

section \<open>Properties of the access check\<close>

text \<open>
  The answer of the check, in one equivalence: a url is restricted exactly when strict
  mode is \<^verbatim>\<open>true\<close>, its file does not exist, is no safe module and is below
  no allowed directory.
\<close>

lemma access_check_decision:
  "fst (isFileServingRestricted env url server lg) \<longleftrightarrow>
     strict server = Some True
     \<and> \<not> existsSync env (fileOf env url)
     \<and> fileOf env url \<notin> safeModulesPath server
     \<and> \<not> list_ex (\<lambda>i. prefix (i @ ''/'') (fileOf env url)) (allow server)"
  by (cases "strict server") (auto simp add: isFileServingRestricted_def Let_def)

text \<open>
  C4. When \<^verbatim>\<open>server.config.server.fs.strict\<close> is \<^verbatim>\<open>false\<close>,
  \<^verbatim>\<open>isFileServingRestricted\<close> returns \<^verbatim>\<open>false\<close> for every url,
  whatever the allow list, the safe modules, the disk and the helpers are (and it logs
  nothing).
\<close>

theorem strict_disabled_never_restricted:
  assumes "strict server = Some False"
  shows "isFileServingRestricted env url server lg = (False, lg)"
  using assms by (simp add: isFileServingRestricted_def)

text \<open>
  Witness of C4: the strict server with its mode switched off, asked for
  \<^verbatim>\<open>/etc/passwd\<close>, outside its allow list.
\<close>

theorem strict_disabled_never_restricted_witness:
  "strict (strictServer\<lparr>strict := Some False\<rparr>) = Some False
   \<and> isFileServingRestricted (posixEnv []) ''/etc/passwd''
        (strictServer\<lparr>strict := Some False\<rparr>) quietLogger = (False, quietLogger)"
proof -
  have off: "strict (strictServer\<lparr>strict := Some False\<rparr>) = Some False"
    by simp
  from strict_disabled_never_restricted [OF off] off show ?thesis
    by blast
qed

text \<open>
  C6. A url whose normalized file is a member of
  \<^verbatim>\<open>moduleGraph.safeModulesPath\<close> is never restricted, whatever the allow list
  holds (and nothing is logged).
\<close>

theorem safe_module_never_restricted:
  assumes "fileOf env url \<in> safeModulesPath server"
  shows "isFileServingRestricted env url server lg = (False, lg)"
  using assms by (simp add: isFileServingRestricted_def Let_def)

text \<open>
  Witness of C6: a resolved dependency outside \<^verbatim>\<open>/proj\<close>, the only allowed
  directory, on a server in strict mode.
\<close>

theorem safe_module_never_restricted_witness:
  "fileOf (posixEnv []) ''/deps/pkg/index.js''
     \<in> safeModulesPath (strictServer\<lparr>safeModulesPath := {''/deps/pkg/index.js''}\<rparr>)
   \<and> isFileServingRestricted (posixEnv []) ''/deps/pkg/index.js''
        (strictServer\<lparr>safeModulesPath := {''/deps/pkg/index.js''}\<rparr>) quietLogger
      = (False, quietLogger)"
proof -
  have safe: "fileOf (posixEnv []) ''/deps/pkg/index.js''
     \<in> safeModulesPath (strictServer\<lparr>safeModulesPath := {''/deps/pkg/index.js''}\<rparr>)"
    by code_simp
  from safe_module_never_restricted [OF safe] safe show ?thesis
    by blast
qed

text \<open>
  The descendants of an allowed directory: a url whose normalized file starts with
  \<^verbatim>\<open>d + '/'\<close> for a directory \<^verbatim>\<open>d\<close> of the allow list is never
  restricted, and nothing is logged, whether the file exists or not.
\<close>

lemma descendant_of_allowed_never_restricted:
  assumes "d \<in> set (allow server)" and "prefix (d @ ''/'') (fileOf env url)"
  shows "isFileServingRestricted env url server lg = (False, lg)"
proof -
  from assms have "list_ex (\<lambda>i. prefix (i @ ''/'') (fileOf env url)) (allow server)"
    unfolding list_ex_iff by blast
  then show ?thesis
    by (simp add: isFileServingRestricted_def Let_def)
qed

lemma descendant_of_allowed_never_restricted_example:
  "''/proj'' \<in> set (allow strictServer)
   \<and> prefix (''/proj'' @ ''/'') (fileOf (posixEnv []) ''/proj/src/main.ts?t=1'')
   \<and> isFileServingRestricted (posixEnv []) ''/proj/src/main.ts?t=1'' strictServer quietLogger
      = (False, quietLogger)"
proof -
  have d: "''/proj'' \<in> set (allow strictServer)"
    by code_simp
  have below: "prefix (''/proj'' @ ''/'') (fileOf (posixEnv []) ''/proj/src/main.ts?t=1'')"
    by code_simp
  from descendant_of_allowed_never_restricted [OF d below] d below show ?thesis
    by blast
qed

text \<open>
  No file that exists is restricted, an allowed directory itself included: with
  \<^verbatim>\<open>/proj\<close> on the disk, the url \<^verbatim>\<open>/proj\<close> is let through.
\<close>

lemma existing_file_never_restricted:
  assumes "existsSync env (fileOf env url)"
  shows "isFileServingRestricted env url server lg = (False, lg)"
  using assms by (simp add: isFileServingRestricted_def Let_def)

lemma existing_allowed_directory_not_restricted:
  "fileOf (posixEnv [''/proj'']) ''/proj'' = ''/proj''
   \<and> ''/proj'' \<in> set (allow strictServer)
   \<and> isFileServingRestricted (posixEnv [''/proj'']) ''/proj'' strictServer quietLogger
      = (False, quietLogger)"
  by code_simp

text \<open>
  C5 promises that a url whose normalized file is an allowed directory, or is below one,
  is not restricted. On this code that holds below the directory and for every file that
  exists (the two lemmas above), and fails only where the file is missing: the url
  \<^verbatim>\<open>/proj\<close> normalizes to \<^verbatim>\<open>/proj\<close>, the allowed directory, and on a
  disk without it the strict server restricts it. It gets there through the existence
  test, which lets a missing file go on to the allow list against its own comment (a file
  that does not exist should not be restricted).
\<close>

theorem missing_allowed_directory_restricted:
  "fileOf (posixEnv []) ''/proj'' = ''/proj''
   \<and> ''/proj'' \<in> set (allow strictServer)
   \<and> \<not> existsSync (posixEnv []) (fileOf (posixEnv []) ''/proj'')
   \<and> fst (isFileServingRestricted (posixEnv []) ''/proj'' strictServer quietLogger) = True"
  by code_simp

text \<open>
  C1 is what the comments of the source ask for, and the code does the opposite:
  \<^verbatim>\<open>if (fs.existsSync(file)) return false\<close> returns for the file that exists.
  With \<^verbatim>\<open>/etc/passwd\<close> on the disk, outside the allow list, not a safe module,
  on a server in strict mode, the check answers \<^verbatim>\<open>false\<close>.
\<close>

theorem existing_file_outside_allow_list_not_restricted:
  "existsSync (posixEnv [''/etc/passwd'']) (fileOf (posixEnv [''/etc/passwd'']) ''/etc/passwd'')
   \<and> fileOf (posixEnv [''/etc/passwd'']) ''/etc/passwd'' \<notin> safeModulesPath strictServer
   \<and> \<not> list_ex (\<lambda>i. prefix (i @ ''/'') (fileOf (posixEnv [''/etc/passwd'']) ''/etc/passwd''))
          (allow strictServer)
   \<and> strict strictServer = Some True
   \<and> fst (isFileServingRestricted (posixEnv [''/etc/passwd'']) ''/etc/passwd''
            strictServer quietLogger) = False"
  by code_simp

text \<open>
  C2 is what the comment above the existence test says (a file that does not exist
  should not be restricted), and the code does the opposite: on an empty disk the strict
  server restricts \<^verbatim>\<open>/api/users\<close>.
\<close>

theorem missing_file_restricted:
  "\<not> existsSync (posixEnv []) (fileOf (posixEnv []) ''/api/users'')
   \<and> fst (isFileServingRestricted (posixEnv []) ''/api/users'' strictServer quietLogger) = True"
  by code_simp




section \<open>Properties of the middlewares\<close>

text \<open>
  C3 is what the comment in the source asks for (a restricted request is ignored), and
  what the static middleware does with \<^verbatim>\<open>return next()\<close>; the raw filesystem
  middleware calls \<^verbatim>\<open>next()\<close> without returning. For
  \<^verbatim>\<open>/@fs/etc/passwd\<close>, which the check restricts, it calls
  \<^verbatim>\<open>next\<close> and then hands the request to the file transfer as well.
\<close>

theorem raw_fs_restricted_still_served:
  "prefix (FS_PREFIX (posixEnv [])) ''/@fs/etc/passwd''
   \<and> fst (isFileServingRestricted (posixEnv [])
          (slash (posixEnv [])
             (resolve (posixEnv []) [fsPathFromId (posixEnv []) ''/@fs/etc/passwd'']))
          strictServer quietLogger) = True
   \<and> calls (viteServeRawFsMiddleware (posixEnv []) strictServer ''/@fs/etc/passwd'' quietLogger)
      = [Next, Serve ''/'' ''etc/passwd'']"
  by code_simp

text \<open>
  The same holds for every environment and server: a url with the prefix always reaches
  the file transfer, restricted or not.
\<close>

lemma raw_fs_prefixed_always_served:
  assumes "prefix (FS_PREFIX env) url"
  shows "\<exists>url'. last (calls (viteServeRawFsMiddleware env server url lg)) = Serve ''/'' url'"
  using assms by (simp add: viteServeRawFsMiddleware_def Let_def)

text \<open>
  The loop returns the rewrite of the first rule that matches, whatever follows it.
\<close>

lemma aliasLoop_first_match:
  assumes "\<forall>b \<in> set skipped. \<not> matches (findA b) url" and "matches (findA a) url"
  shows "aliasLoop (skipped @ a # rest) url = Some (replaceFind url (findA a) (replacement a))"
  using assms by (induction skipped) simp_all

text \<open>
  C7. With the rules \<^verbatim>\<open>[("/a", "/x"), ("/a/b", "/y")]\<close> the url
  \<^verbatim>\<open>/a/b/c\<close> is rewritten to \<^verbatim>\<open>/x/b/c\<close>; and in general the loop
  stops at the first rule that matches, in the configured order: its result is the
  rewrite by that rule and does not depend on the rules after it.
\<close>

theorem alias_first_match_wins:
  "aliasLoop [\<lparr>findA = FindString ''/a'', replacement = ''/x''\<rparr>,
              \<lparr>findA = FindString ''/a/b'', replacement = ''/y''\<rparr>] ''/a/b/c''
     = Some ''/x/b/c''
   \<and> (\<forall>skipped a rest url.
        (\<forall>b \<in> set skipped. \<not> matches (findA b) url) \<and> matches (findA a) url
        \<longrightarrow> aliasLoop (skipped @ a # rest) url
            = Some (replaceFind url (findA a) (replacement a)))"
proof (rule conjI)
  show "aliasLoop [\<lparr>findA = FindString ''/a'', replacement = ''/x''\<rparr>,
              \<lparr>findA = FindString ''/a/b'', replacement = ''/y''\<rparr>] ''/a/b/c''
     = Some ''/x/b/c''"
    by code_simp
next
  show "\<forall>skipped a rest url.
        (\<forall>b \<in> set skipped. \<not> matches (findA b) url) \<and> matches (findA a) url
        \<longrightarrow> aliasLoop (skipped @ a # rest) url
            = Some (replaceFind url (findA a) (replacement a))"
    using aliasLoop_first_match by blast
qed

text \<open>
  Witness of C7: on \<^verbatim>\<open>/a/b/c\<close> the rule for \<^verbatim>\<open>/static\<close> is passed
  over, the rules for \<^verbatim>\<open>/a\<close> and \<^verbatim>\<open>/a/b\<close> both match, and the result
  is the rewrite by the rule for \<^verbatim>\<open>/a\<close>.
\<close>

theorem alias_first_match_wins_witness:
  "\<not> matches (findA \<lparr>findA = FindString ''/static'', replacement = ''/assets''\<rparr>) ''/a/b/c''
   \<and> matches (findA \<lparr>findA = FindString ''/a'', replacement = ''/x''\<rparr>) ''/a/b/c''
   \<and> matches (findA \<lparr>findA = FindString ''/a/b'', replacement = ''/y''\<rparr>) ''/a/b/c''
   \<and> aliasLoop ([\<lparr>findA = FindString ''/static'', replacement = ''/assets''\<rparr>] @ \<lparr>findA = FindString ''/a'', replacement = ''/x''\<rparr>
                  # [\<lparr>findA = FindString ''/a/b'', replacement = ''/y''\<rparr>]) ''/a/b/c''
      = Some (replaceFind ''/a/b/c'' (findA \<lparr>findA = FindString ''/a'', replacement = ''/x''\<rparr>)
                (replacement \<lparr>findA = FindString ''/a'', replacement = ''/x''\<rparr>))
   \<and> replaceFind ''/a/b/c'' (findA \<lparr>findA = FindString ''/a'', replacement = ''/x''\<rparr>)
                (replacement \<lparr>findA = FindString ''/a'', replacement = ''/x''\<rparr>) = ''/x/b/c''"
proof -
  have passed: "\<forall>b \<in> set [\<lparr>findA = FindString ''/static'', replacement = ''/assets''\<rparr>].
      \<not> matches (findA b) ''/a/b/c''"
    by simp
  have first: "matches (findA \<lparr>findA = FindString ''/a'', replacement = ''/x''\<rparr>) ''/a/b/c''"
    by simp
  have second: "matches (findA \<lparr>findA = FindString ''/a/b'', replacement = ''/y''\<rparr>) ''/a/b/c''"
    by simp
  have val: "replaceFind ''/a/b/c'' (findA \<lparr>findA = FindString ''/a'', replacement = ''/x''\<rparr>)
                (replacement \<lparr>findA = FindString ''/a'', replacement = ''/x''\<rparr>) = ''/x/b/c''"
    by code_simp
  from alias_first_match_wins have
    "aliasLoop ([\<lparr>findA = FindString ''/static'', replacement = ''/assets''\<rparr>] @ \<lparr>findA = FindString ''/a'', replacement = ''/x''\<rparr>
                  # [\<lparr>findA = FindString ''/a/b'', replacement = ''/y''\<rparr>]) ''/a/b/c''
      = Some (replaceFind ''/a/b/c'' (findA \<lparr>findA = FindString ''/a'', replacement = ''/x''\<rparr>)
                (replacement \<lparr>findA = FindString ''/a'', replacement = ''/x''\<rparr>))"
    using passed first by blast
  moreover from passed have "\<not> matches (findA \<lparr>findA = FindString ''/static'', replacement = ''/assets''\<rparr>) ''/a/b/c''"
    by simp
  ultimately show ?thesis
    using first second val by blast
qed

text \<open>
  C8, as stated, fails: \<^verbatim>\<open>/logo.png?import\<close> is an import request, and the
  static middleware does not skip it: it resolves it to \<^verbatim>\<open>/proj/logo.png\<close>,
  runs the access check and hands it to the file transfer.
\<close>

theorem import_request_served_counterexample:
  "isImportRequest (posixEnv [''/proj/logo.png'']) ''/logo.png?import''
   \<and> calls (viteServeStaticMiddleware (posixEnv [''/proj/logo.png'']) ''/proj'' strictServer
        ''/logo.png?import'' quietLogger) = [Serve ''/proj'' ''/logo.png?import'']"
  by code_simp

text \<open>
  C8, amended. The static middleware skips a request, calling \<^verbatim>\<open>next\<close> with
  \<^verbatim>\<open>req.url\<close> and the logger untouched (no alias, no path resolution, no
  access check, no serving), when the url ends with \<^verbatim>\<open>/\<close>, or its extension
  after \<^verbatim>\<open>cleanUrl\<close> is \<^verbatim>\<open>.html\<close>, or it is an internal request. Being
  an import request is not one of these conditions.
\<close>

theorem static_skips_slash_html_internal:
  assumes "suffix ''/'' url \<or> extname env (cleanUrl env url) = ''.html''
           \<or> isInternalRequest env url"
  shows "viteServeStaticMiddleware env dir server url lg
         = \<lparr>calls = [Next], req_url = url, logger = lg\<rparr>"
  using assms by (simp add: viteServeStaticMiddleware_def)

text \<open>Witness of the amended C8: the internal request of the client.\<close>

theorem static_skips_slash_html_internal_witness:
  "(suffix ''/'' ''/@vite/client''
     \<or> extname (posixEnv []) (cleanUrl (posixEnv []) ''/@vite/client'') = ''.html''
     \<or> isInternalRequest (posixEnv []) ''/@vite/client'')
   \<and> viteServeStaticMiddleware (posixEnv []) ''/proj'' strictServer ''/@vite/client'' quietLogger
      = \<lparr>calls = [Next], req_url = ''/@vite/client'', logger = quietLogger\<rparr>"
proof -
  have skip: "suffix ''/'' ''/@vite/client''
     \<or> extname (posixEnv []) (cleanUrl (posixEnv []) ''/@vite/client'') = ''.html''
     \<or> isInternalRequest (posixEnv []) ''/@vite/client''"
    by code_simp
  from static_skips_slash_html_internal [OF skip] skip show ?thesis
    by blast
qed

text \<open>
  The static middleware never asks \<^verbatim>\<open>isImportRequest\<close>: its outcome is the same
  whatever that predicate is.
\<close>

lemma fileOf_ignores_import_marker:
  "fileOf (env\<lparr>isImportRequest := f\<rparr>) = fileOf env"
  by (simp add: fun_eq_iff fileOf_def)

lemma access_check_ignores_import_marker:
  "isFileServingRestricted (env\<lparr>isImportRequest := f\<rparr>) = isFileServingRestricted env"
  by (simp add: fun_eq_iff isFileServingRestricted_def fileOf_ignores_import_marker)

lemma static_ignores_import_marker:
  "viteServeStaticMiddleware (env\<lparr>isImportRequest := f\<rparr>) dir server url lg
   = viteServeStaticMiddleware env dir server url lg"
  by (simp add: viteServeStaticMiddleware_def access_check_ignores_import_marker
        cong: option.case_cong)

text \<open>
  C10. The public middleware has no access to the server: it reads neither the policy,
  nor the alias rules, nor the safe modules, and never calls
  \<^verbatim>\<open>isFileServingRestricted\<close>. A url that is neither an import request nor an
  internal request is handed to the file transfer of the public directory as it came,
  with \<^verbatim>\<open>req.url\<close> and the logger unchanged.
\<close>

theorem public_serves_without_access_check:
  assumes "\<not> isImportRequest env url" and "\<not> isInternalRequest env url"
  shows "viteServePublicMiddleware env dir url lg
         = \<lparr>calls = [Serve dir url], req_url = url, logger = lg\<rparr>"
  using assms by (simp add: viteServePublicMiddleware_def)

text \<open>Witness of C10: a plain asset request.\<close>

theorem public_serves_without_access_check_witness:
  "\<not> isImportRequest (posixEnv []) ''/favicon.ico''
   \<and> \<not> isInternalRequest (posixEnv []) ''/favicon.ico''
   \<and> viteServePublicMiddleware (posixEnv []) ''/proj/public'' ''/favicon.ico'' quietLogger
      = \<lparr>calls = [Serve ''/proj/public'' ''/favicon.ico''], req_url = ''/favicon.ico'',
         logger = quietLogger\<rparr>"
proof -
  have a: "\<not> isImportRequest (posixEnv []) ''/favicon.ico''"
    by code_simp
  have b: "\<not> isInternalRequest (posixEnv []) ''/favicon.ico''"
    by code_simp
  from public_serves_without_access_check [OF a b] a b show ?thesis
    by blast
qed

end
